theory Spec2Isabelle
  imports Main "HOL-Library.Sublist"
begin

unbundle bit_operations_syntax

section \<open>Values of the host language\<close>

text \<open>
  The plugin of \<^verbatim>\<open>src/index.js\<close> is embedded function by function. A JavaScript
  string is a \<^typ>\<open>string\<close>; a value that may be \<^verbatim>\<open>undefined\<close> is an option with
  \<^term>\<open>None\<close> for \<^verbatim>\<open>undefined\<close>. A thrown exception is the left summand of a sum
  type. A promise is represented by the way it settles, \<open>Pending\<close> standing for a
  promise that is never resolved nor rejected.
\<close>

datatype js_error = TypeError | FsError | Error string

datatype 'a promise = Resolved 'a | Rejected js_error | Pending

datatype jsval =
  JUndefined | JBool bool | JNum int | JStr string | JObj "(string \<times> jsval) list"

text \<open>
  An object used as a configuration (the SVGO default configuration, the
  \<^verbatim>\<open>svgoConfig\<close> override) is the list of its own enumerable properties in the order
  in which they were created, no key twice. JavaScript does not enumerate in that order:
  the keys that are array indices come first, in ascending numeric order, then the other
  keys in creation order (\<open>ownEntries\<close> below). \<open>JNum\<close> holds the numbers that are
  integers.
\<close>

type_synonym jsobject = "(string \<times> jsval) list"

datatype logentry = Msg string | Err js_error

datatype effect =
    Mkdir string
  | CopyFile string string
  | WriteFile string string

subsection \<open>String primitives\<close>

text \<open>\<^verbatim>\<open>s.indexOf(pat)\<close>: the first index at which \<open>pat\<close> occurs in \<open>s\<close>, or \<open>-1\<close>.\<close>

fun indexOfFrom :: "string \<Rightarrow> string \<Rightarrow> nat \<Rightarrow> int" where
  "indexOfFrom pat [] i = (if pat = [] then int i else - 1)"
| "indexOfFrom pat (c # cs) i =
     (if prefix pat (c # cs) then int i else indexOfFrom pat cs (Suc i))"

definition indexOf :: "string \<Rightarrow> string \<Rightarrow> int" where
  "indexOf s pat = indexOfFrom pat s 0"

text \<open>A number used as a condition is true unless it is zero; \<^verbatim>\<open>~x\<close> is \<^term>\<open>NOT x\<close>.\<close>

definition truthy :: "int \<Rightarrow> bool" where
  "truthy x = (x \<noteq> 0)"

text \<open>\<^verbatim>\<open>s.split('/')\<close>\<close>

fun splitOn :: "char \<Rightarrow> string \<Rightarrow> string list" where
  "splitOn d [] = [[]]"
| "splitOn d (c # cs) =
     (if c = d then [] # splitOn d cs
      else (case splitOn d cs of [] \<Rightarrow> [[c]] | x # xs \<Rightarrow> (c # x) # xs))"

text \<open>
  An array index is a canonical numeric string below \<open>2\<^sup>3\<^sup>2 - 1\<close>: digits only, no
  leading zero except for \<open>0\<close> itself.
\<close>

definition isDigit :: "char \<Rightarrow> bool" where
  "isDigit c = (c \<in> set ''0123456789'')"

definition numericValue :: "string \<Rightarrow> int" where
  "numericValue s = foldl (\<lambda>a c. 10 * a + (of_char c - 48)) 0 s"

definition isArrayIndex :: "string \<Rightarrow> bool" where
  "isArrayIndex s =
     (s \<noteq> [] \<and> list_all isDigit s \<and> (s = ''0'' \<or> hd s \<noteq> CHR ''0'') \<and>
      numericValue s < 4294967295)"

text \<open>The decimal digits of a number, as \<^verbatim>\<open>String(index)\<close> writes them.\<close>

fun showNat :: "nat \<Rightarrow> string" where
  "showNat n =
     (if n < 10 then [''0123456789'' ! n]
      else showNat (n div 10) @ [''0123456789'' ! (n mod 10)])"

text \<open>\<^verbatim>\<open>html.substring(0, start)\<close> and \<^verbatim>\<open>html.substring(end)\<close> on a string.\<close>

definition substringTo :: "string \<Rightarrow> nat \<Rightarrow> string" where
  "substringTo html start = take start html"

definition substringFrom :: "string \<Rightarrow> nat \<Rightarrow> string" where
  "substringFrom html end = drop end html"

section \<open>Data model\<close>

text \<open>
  A node of the tree built by \<^verbatim>\<open>parse5.parseFragment\<close> with location information:
  \<^verbatim>\<open>nodeName\<close>, \<^verbatim>\<open>attrs\<close> (name and value), \<^verbatim>\<open>childNodes\<close> and \<^verbatim>\<open>__location\<close> with its
  \<^verbatim>\<open>startOffset\<close> and \<^verbatim>\<open>endOffset\<close>. The parser leaves \<^verbatim>\<open>__location\<close> undefined on
  elements it creates itself, hence the option. A node without attributes or children
  (a text node) has empty lists.
\<close>

datatype node =
  Node (nodeName: string) (attrs: "(string \<times> string) list")
       (childNodes: "node list") (location: "(nat \<times> nat) option")

text \<open>
  The collaborators the plugin calls: the HTML parser, \<^verbatim>\<open>path.resolve\<close>, the file
  system, the SVG optimizer, the MIME table and the base64 encoder. \<open>existsSync\<close> answers
  for the file system as it is before the run. A result \<^term>\<open>None\<close>
  (or \<^term>\<open>Inl\<close>) is a thrown exception or an error passed to the callback. The parser
  is given the buffer as the plugin holds it, which may be \<^verbatim>\<open>undefined\<close>.
  \<^verbatim>\<open>mime.lookup\<close> answers \<^verbatim>\<open>false\<close> for an unknown extension, here \<^term>\<open>None\<close>.
\<close>

record env =
  parseFragment :: "string option \<Rightarrow> js_error + node"
  pathResolve :: "string list \<Rightarrow> string"
  pathJoin :: "string \<Rightarrow> string \<Rightarrow> string"
  existsSync :: "string \<Rightarrow> bool"
  statSize :: "string \<Rightarrow> nat option"
  readFile :: "string \<Rightarrow> string option"
  readFileSync :: "string \<Rightarrow> string option"
  mkdirSyncFails :: "string \<Rightarrow> bool"
  writeFileFails :: "string \<Rightarrow> bool"
  base64 :: "string \<Rightarrow> string"
  mimeLookup :: "string \<Rightarrow> string option"
  optimize :: "jsobject list \<Rightarrow> string option \<Rightarrow> string + string"

text \<open>
  The fields of the plugin instance, together with the module-level object
  \<^verbatim>\<open>svgoDefaultConfig\<close> (loaded once by \<^verbatim>\<open>require\<close>), the lines written by
  \<^verbatim>\<open>console.log\<close> and the writes made to the file system.
\<close>

record state =
  runPreEmit :: bool
  basePath :: "string option"
  userConfig :: jsobject
  outputPath :: string
  files :: "(string \<times> string) list"
  processedImages :: "nat list"
  imageLimit :: nat
  svgoDefaultConfig :: jsobject
  console :: "logentry list"
  effects :: "effect list"

record options =
  opt_runPreEmit :: bool
  opt_basePath :: "string option"
  opt_imageLimit :: "nat option"

text \<open>
  The constructor. \<^verbatim>\<open>options.imageLimit || 5148\<close> takes the default for an absent
  limit and for the limit \<open>0\<close>. \<^verbatim>\<open>userConfig\<close> starts as the empty string, which has
  no enumerable property.
\<close>

definition constructor :: "options \<Rightarrow> jsobject \<Rightarrow> state" where
  "constructor opts defaults =
     \<lparr> runPreEmit = opt_runPreEmit opts,
       basePath = opt_basePath opts,
       userConfig = [],
       outputPath = [],
       files = [],
       processedImages = [],
       imageLimit = (case opt_imageLimit opts of
                       None \<Rightarrow> 5148
                     | Some n \<Rightarrow> if n = 0 then 5148 else n),
       svgoDefaultConfig = defaults,
       console = [],
       effects = [] \<rparr>"

section \<open>Asset classifier\<close>

text \<open>\<^verbatim>\<open>getImagesSrc\<close>: \<^verbatim>\<open>_.find(attrs, {name: 'src'})\<close> is the first attribute named \<open>src\<close>.\<close>

definition getImagesSrc :: "node \<Rightarrow> string" where
  "getImagesSrc inlineImage =
     (case find (\<lambda>a. fst a = ''src'') (attrs inlineImage) of
        None \<Rightarrow> []
      | Some svgSrcObject \<Rightarrow>
          (let svgSrc = snd svgSrcObject
           in if svgSrc \<noteq> [] \<and>
                 (truthy (NOT (indexOf svgSrc ''.svg'')) \<or>
                  truthy (NOT (indexOf svgSrc ''.jpg'')) \<or>
                  truthy (NOT (indexOf svgSrc ''.png'')))
              then svgSrc else []))"

text \<open>
  \<^verbatim>\<open>isNodeValidInlineImage\<close>: reading \<^verbatim>\<open>node.__location.startOffset\<close> throws when the
  node has no location; a bare \<^verbatim>\<open>return\<close> is \<^term>\<open>False\<close>.
\<close>

definition isNodeValidInlineImage :: "env \<Rightarrow> state \<Rightarrow> node \<Rightarrow> js_error + bool" where
  "isNodeValidInlineImage E this n =
     (let imageSrc = getImagesSrc n
      in case location n of
           None \<Rightarrow> Inl TypeError
         | Some loc \<Rightarrow>
             if fst loc \<in> set (processedImages this) then Inr False
             else if nodeName n = ''img'' \<and>
                     existsSync E (pathResolve E [''src'', imageSrc]) \<and>
                     (truthy (NOT (indexOf imageSrc ''.svg'')) \<or>
                      truthy (NOT (indexOf imageSrc ''.png'')) \<or>
                      truthy (NOT (indexOf imageSrc ''.jpg'')))
                  then Inr True
                  else Inr False)"

text \<open>
  \<^verbatim>\<open>getInlineImages\<close>: the children are visited in order; a valid child is appended
  to the accumulator, any other child is searched recursively. An exception of the
  classifier leaves the traversal.
\<close>

fun getInlineImages :: "env \<Rightarrow> state \<Rightarrow> node \<Rightarrow> node list \<Rightarrow> js_error + node list"
  and forEachChild :: "env \<Rightarrow> state \<Rightarrow> node list \<Rightarrow> node list \<Rightarrow> js_error + node list"
where
  "getInlineImages E this (Node nm ats cs loc) inlineImages =
     forEachChild E this cs inlineImages"
| "forEachChild E this [] inlineImages = Inr inlineImages"
| "forEachChild E this (childNode # rest) inlineImages =
     (case isNodeValidInlineImage E this childNode of
        Inl err \<Rightarrow> Inl err
      | Inr True \<Rightarrow> forEachChild E this rest (inlineImages @ [childNode])
      | Inr False \<Rightarrow>
          (case getInlineImages E this childNode inlineImages of
             Inl err \<Rightarrow> Inl err
           | Inr inlineImages' \<Rightarrow> forEachChild E this rest inlineImages'))"

definition getFirstInlineImage :: "env \<Rightarrow> state \<Rightarrow> node \<Rightarrow> js_error + node option" where
  "getFirstInlineImage E this documentFragment =
     (case getInlineImages E this documentFragment [] of
        Inl err \<Rightarrow> Inl err
      | Inr [] \<Rightarrow> Inr None
      | Inr (first # others) \<Rightarrow> Inr (Some first))"

section \<open>Image transformer\<close>

text \<open>
  The three splices. Reading \<^verbatim>\<open>inlineImage.__location.startOffset\<close> throws on a node
  without location, \<^verbatim>\<open>html.substring\<close> throws on an undefined buffer.
\<close>

definition replaceImageWithSVG :: "string option \<Rightarrow> node \<Rightarrow> string \<Rightarrow> js_error + string" where
  "replaceImageWithSVG buf inlineImage svg =
     (case location inlineImage of
        None \<Rightarrow> Inl TypeError
      | Some loc \<Rightarrow>
          (case buf of
             None \<Rightarrow> Inl TypeError
           | Some h \<Rightarrow> Inr (substringTo h (fst loc) @ svg @ substringFrom h (snd loc))))"

definition replaceImageWithBase64 :: "string option \<Rightarrow> node \<Rightarrow> string \<Rightarrow> js_error + string" where
  "replaceImageWithBase64 buf inlineImage base64Data =
     (case location inlineImage of
        None \<Rightarrow> Inl TypeError
      | Some loc \<Rightarrow>
          (case buf of
             None \<Rightarrow> Inl TypeError
           | Some h \<Rightarrow>
               Inr (substringTo h (fst loc) @ ''<img src=\"'' @ base64Data @ ''\" />''
                    @ substringFrom h (snd loc))))"

definition moveStaticImage :: "string option \<Rightarrow> node \<Rightarrow> string \<Rightarrow> js_error + string" where
  "moveStaticImage buf inlineImage imagePath =
     (case location inlineImage of
        None \<Rightarrow> Inl TypeError
      | Some loc \<Rightarrow>
          (case buf of
             None \<Rightarrow> Inl TypeError
           | Some h \<Rightarrow>
               Inr (substringTo h (fst loc) @ ''<img src=\"'' @ imagePath @ ''\" />''
                    @ substringFrom h (snd loc))))"

text \<open>
  The own enumerable properties of an object in the order of \<^verbatim>\<open>Object.keys\<close>: array
  indices ascending, then the other keys in creation order.
\<close>

definition ownEntries :: "jsobject \<Rightarrow> jsobject" where
  "ownEntries obj =
     sort_key (\<lambda>p. numericValue (fst p)) (filter (\<lambda>p. isArrayIndex (fst p)) obj)
     @ filter (\<lambda>p. \<not> isArrayIndex (fst p)) obj"

text \<open>
  \<^verbatim>\<open>Object.assign(target, source)\<close> writes every property of the source into the
  target, in the enumeration order of the source: an existing key keeps its place and
  takes the new value, a new key is created last. The target object itself is changed;
  the model returns its new contents.
\<close>

fun setProperty :: "jsobject \<Rightarrow> string \<Rightarrow> jsval \<Rightarrow> jsobject" where
  "setProperty [] key val = [(key, val)]"
| "setProperty (p # ps) key val =
     (if fst p = key then (key, val) # ps else p # setProperty ps key val)"

definition objectAssign :: "jsobject \<Rightarrow> jsobject \<Rightarrow> jsobject" where
  "objectAssign target source =
     foldl (\<lambda>t p. setProperty t (fst p) (snd p)) target (ownEntries source)"

text \<open>
  \<^verbatim>\<open>_.map(configObj, (value, key) => ({ [key]: value }))\<close>. Lodash takes a collection
  for array-like when its \<^verbatim>\<open>length\<close> is a non-negative integer up to \<open>2\<^sup>5\<^sup>3 - 1\<close>; it
  then visits the indices below that length, whether the object has them or not.
  Otherwise it visits the keys in the order of \<^verbatim>\<open>Object.keys\<close>.
\<close>

definition isLength :: "jsval \<Rightarrow> bool" where
  "isLength v = (case v of JNum n \<Rightarrow> 0 \<le> n \<and> n \<le> 9007199254740991 | _ \<Rightarrow> False)"

definition isArrayLike :: "jsobject \<Rightarrow> bool" where
  "isArrayLike obj = (case map_of obj ''length'' of None \<Rightarrow> False | Some v \<Rightarrow> isLength v)"

definition getProperty :: "jsobject \<Rightarrow> string \<Rightarrow> jsval" where
  "getProperty obj key = (case map_of obj key of None \<Rightarrow> JUndefined | Some v \<Rightarrow> v)"

definition pluginsOf :: "jsobject \<Rightarrow> jsobject list" where
  "pluginsOf configObj =
     (if isArrayLike configObj
      then map (\<lambda>index. [(showNat index, getProperty configObj (showNat index))])
             [0 ..< (case getProperty configObj ''length'' of JNum n \<Rightarrow> nat n | _ \<Rightarrow> 0)]
      else map (\<lambda>p. [(fst p, snd p)]) (ownEntries configObj))"

text \<open>
  \<^verbatim>\<open>mkdirsSync\<close>: the path is split at its slashes and created component by
  component; \<^verbatim>\<open>pathtmp\<close> starts undefined, here the empty string, which the test
  \<^verbatim>\<open>if (pathtmp)\<close> treats alike. \<^verbatim>\<open>fs.mkdirSync\<close> may throw, which leaves the loop.
  A path exists when it did before the run or has been created since.
\<close>

definition pathExists :: "env \<Rightarrow> state \<Rightarrow> string \<Rightarrow> bool" where
  "pathExists E this file = (existsSync E file \<or> Mkdir file \<in> set (effects this))"

fun mkdirsLoop :: "env \<Rightarrow> state \<Rightarrow> string \<Rightarrow> string list \<Rightarrow> js_error option \<times> state" where
  "mkdirsLoop E this pathtmp [] = (None, this)"
| "mkdirsLoop E this pathtmp (dirname # rest) =
     (let pathtmp1 = (if dirname = [] then ''/'' else pathtmp);
          pathtmp2 = (if pathtmp1 \<noteq> [] then pathJoin E pathtmp1 dirname else dirname)
      in if pathExists E this pathtmp2 then mkdirsLoop E this pathtmp2 rest
         else if mkdirSyncFails E pathtmp2 then (Some FsError, this)
         else mkdirsLoop E (this\<lparr>effects := effects this @ [Mkdir pathtmp2]\<rparr>) pathtmp2 rest)"

definition mkdirsSync :: "env \<Rightarrow> state \<Rightarrow> string \<Rightarrow> js_error option \<times> state" where
  "mkdirsSync E this dirpath =
     (if \<not> pathExists E this dirpath
      then mkdirsLoop E this [] (splitOn CHR ''/'' dirpath)
      else (None, this))"

text \<open>\<^verbatim>\<open>this.processedImages.push(inlineImage.__location.startOffset)\<close>\<close>

definition pushProcessed :: "state \<Rightarrow> node \<Rightarrow> js_error + state" where
  "pushProcessed this inlineImage =
     (case location inlineImage of
        None \<Rightarrow> Inl TypeError
      | Some loc \<Rightarrow> Inr (this\<lparr>processedImages := processedImages this @ [fst loc]\<rparr>))"

text \<open>A promise keeps its first settlement.\<close>

definition settle :: "'a promise option \<Rightarrow> 'a promise \<Rightarrow> 'a promise" where
  "settle first p = (case first of None \<Rightarrow> p | Some q \<Rightarrow> q)"

text \<open>
  The branch of \<^verbatim>\<open>processOutputHtml\<close> for a source containing \<open>.svg\<close>. The executor
  starts the read and goes on to the push of the last line, which throws (and so rejects
  the promise) on a node without location. The callback of the read then rejects on a
  read error without returning, merges the configuration into \<^verbatim>\<open>svgoDefaultConfig\<close>
  and runs the optimizer. A failure of the optimizer, or an exception of the splice, is
  logged by the \<^verbatim>\<open>catch\<close> handler, which settles nothing.
\<close>

definition svgBranch ::
  "env \<Rightarrow> state \<Rightarrow> string option \<Rightarrow> node \<Rightarrow> string \<Rightarrow> string option promise \<times> state" where
  "svgBranch E this buf inlineImage imageSrc =
     (let pushed = pushProcessed this inlineImage;
          this1 = (case pushed of Inl err \<Rightarrow> this | Inr t \<Rightarrow> t);
          data = readFile E (pathResolve E [''src'', imageSrc]);
          first = (case pushed of
                     Inl err \<Rightarrow> Some (Rejected err)
                   | Inr t \<Rightarrow> (case data of None \<Rightarrow> Some (Rejected FsError) | Some d \<Rightarrow> None));
          configObj = objectAssign (svgoDefaultConfig this1) (userConfig this1);
          this2 = this1\<lparr>svgoDefaultConfig := configObj\<rparr>
      in case optimize E (pluginsOf configObj) data of
           Inl message \<Rightarrow>
             (settle first Pending, this2\<lparr>console := console this2 @ [Msg message]\<rparr>)
         | Inr optimisedSVG \<Rightarrow>
             (case replaceImageWithSVG buf inlineImage optimisedSVG of
                Inl err \<Rightarrow> (settle first Pending, this2\<lparr>console := console this2 @ [Err err]\<rparr>)
              | Inr buf' \<Rightarrow> (settle first (Resolved (Some buf')), this2)))"

text \<open>
  The other branch, all of it inside the executor: an exception rejects the promise and
  skips the rest, the push included. \<^verbatim>\<open>path.resolve\<close> throws a \<^verbatim>\<open>TypeError\<close> on an
  argument that is not a string, so on \<^verbatim>\<open>this.userConfig.basePath\<close> when the user
  configuration has no string of that name; \<^verbatim>\<open>mkdirsSync\<close> may throw as well. The copy
  is a stream that is only started here (\<open>CopyFile\<close>); its errors come later and
  outside the promise.
\<close>

definition rasterBranch ::
  "env \<Rightarrow> state \<Rightarrow> string option \<Rightarrow> node \<Rightarrow> string \<Rightarrow> string option promise \<times> state" where
  "rasterBranch E this buf inlineImage imageSrc =
     (let file = pathResolve E [''src'', imageSrc]
      in case statSize E file of
           None \<Rightarrow> (Rejected FsError, this)
         | Some fileSize \<Rightarrow>
             if fileSize \<ge> imageLimit this then
               (let fileName = last (splitOn CHR ''/'' imageSrc)
                in case map_of (userConfig this) ''basePath'' of
                     Some (JStr dir) \<Rightarrow>
                       (let dest = pathResolve E [''dist'', dir];
                            made = (if \<not> pathExists E this dest then mkdirsSync E this dest
                                    else (None, this));
                            this1 = snd made
                        in case fst made of
                             Some err \<Rightarrow> (Rejected err, this1)
                           | None \<Rightarrow>
                               (let this2 = this1\<lparr>effects := effects this1 @
                                      [CopyFile file (pathResolve E [''dist'', dir, fileName])]\<rparr>
                                in case moveStaticImage buf inlineImage
                                          (''./'' @ dir @ fileName) of
                                     Inl err \<Rightarrow> (Rejected err, this2)
                                   | Inr buf' \<Rightarrow>
                                       (Resolved (Some buf'),
                                        case pushProcessed this2 inlineImage of
                                          Inl err \<Rightarrow> this2 | Inr t \<Rightarrow> t)))
                   | _ \<Rightarrow> (Rejected TypeError, this))
             else
               (case readFileSync E file of
                  None \<Rightarrow> (Rejected FsError, this)
                | Some img \<Rightarrow>
                    (let seqData = base64 E img;
                         base64Data = ''data:'' @
                           (case mimeLookup E file of None \<Rightarrow> ''false'' | Some m \<Rightarrow> m) @
                           '';base64,'' @ seqData
                     in case replaceImageWithBase64 buf inlineImage base64Data of
                          Inl err \<Rightarrow> (Rejected err, this)
                        | Inr buf' \<Rightarrow>
                            (Resolved (Some buf'),
                             case pushProcessed this inlineImage of
                               Inl err \<Rightarrow> this | Inr t \<Rightarrow> t))))"

definition processOutputHtml ::
  "env \<Rightarrow> state \<Rightarrow> string option \<Rightarrow> node \<Rightarrow> string option promise \<times> state" where
  "processOutputHtml E this buf inlineImage =
     (let imageSrc = getImagesSrc inlineImage
      in if imageSrc = [] then (Resolved buf, this)
         else if truthy (NOT (indexOf imageSrc ''.svg''))
              then svgBranch E this buf inlineImage imageSrc
              else rasterBranch E this buf inlineImage imageSrc)"

section \<open>Rewrite engine\<close>

text \<open>\<^verbatim>\<open>processImage\<close>: parse the buffer it is given, take the first valid image, transform.\<close>

definition processImage :: "env \<Rightarrow> state \<Rightarrow> string option \<Rightarrow> string option promise \<times> state" where
  "processImage E this buf =
     (case parseFragment E buf of
        Inl err \<Rightarrow> (Rejected err, this)
      | Inr documentFragment \<Rightarrow>
          (case getFirstInlineImage E this documentFragment of
             Inl err \<Rightarrow> (Rejected err, this)
           | Inr None \<Rightarrow> (Resolved buf, this)
           | Inr (Some inlineImage) \<Rightarrow> processOutputHtml E this buf inlineImage))"

text \<open>
  \<^verbatim>\<open>updateHTML\<close> chains one \<^verbatim>\<open>then\<close>/\<^verbatim>\<open>catch\<close> pair per element of
  \<^verbatim>\<open>inlineImages\<close>. The \<^verbatim>\<open>catch\<close> handler returns what \<^verbatim>\<open>console.log\<close> returns, so after
  a rejection the chain goes on with an undefined buffer. A pending promise in the chain
  stops it for good.
\<close>

definition updateStep ::
  "env \<Rightarrow> string option promise \<times> state \<Rightarrow> string option promise \<times> state" where
  "updateStep E acc =
     (case acc of
        (Resolved buf, this) \<Rightarrow>
          (case processImage E this buf of
             (Rejected err, this') \<Rightarrow>
               (Resolved None, this'\<lparr>console := console this' @ [Err err]\<rparr>)
           | (Resolved buf', this') \<Rightarrow> (Resolved buf', this')
           | (Pending, this') \<Rightarrow> (Pending, this'))
      | (Rejected err, this) \<Rightarrow> (Resolved None, this\<lparr>console := console this @ [Err err]\<rparr>)
      | (Pending, this) \<Rightarrow> (Pending, this))"

definition updateHTML ::
  "env \<Rightarrow> state \<Rightarrow> string \<Rightarrow> node list \<Rightarrow> string option promise \<times> state" where
  "updateHTML E this buf inlineImages =
     foldl (\<lambda>acc imageNode. updateStep E acc) (Resolved (Some buf), this) inlineImages"

text \<open>
  \<^verbatim>\<open>processImages\<close>: without a valid image the promise is resolved with no value.
\<close>

definition processImages :: "env \<Rightarrow> state \<Rightarrow> string \<Rightarrow> string option promise \<times> state" where
  "processImages E this buf =
     (case parseFragment E (Some buf) of
        Inl err \<Rightarrow> (Rejected err, this)
      | Inr documentFragment \<Rightarrow>
          (case getInlineImages E this documentFragment [] of
             Inl err \<Rightarrow> (Rejected err, this)
           | Inr [] \<Rightarrow> (Resolved None, this)
           | Inr (i # rest) \<Rightarrow>
               (case updateHTML E this buf (i # rest) of
                  (Rejected err, this') \<Rightarrow>
                    (Rejected err,
                     this'\<lparr>console := console this' @ [Msg ''processImages hit error'', Err err]\<rparr>)
                | other \<Rightarrow> other)))"

section \<open>Pipeline driver\<close>

text \<open>
  What the hooks read of \<^verbatim>\<open>htmlPluginData\<close>: the HTML, the output name and the
  \<^verbatim>\<open>svgoConfig\<close> of the options when it is an object.
\<close>

record htmlPluginData =
  data_html :: string
  data_outputName :: "string option"
  data_svgoConfig :: "jsobject option"

definition getUserConfig :: "state \<Rightarrow> htmlPluginData \<Rightarrow> state" where
  "getUserConfig this d =
     this\<lparr>userConfig := (case data_svgoConfig d of None \<Rightarrow> [] | Some c \<Rightarrow> c)\<rparr>"

text \<open>
  The hook \<^verbatim>\<open>html-webpack-plugin-after-html-processing\<close> (\<^verbatim>\<open>runPreEmit\<close>). The result
  is the plugin data handed back to the host, \<^term>\<open>None\<close> when the promise stays pending
  and the host is never called back. \<^verbatim>\<open>html || htmlPluginData.html\<close> keeps the old HTML
  for an undefined and for an empty result.
\<close>

definition afterHtmlProcessing ::
  "env \<Rightarrow> state \<Rightarrow> htmlPluginData \<Rightarrow> htmlPluginData option \<times> state" where
  "afterHtmlProcessing E this d =
     (let this1 = getUserConfig this d
      in case processImages E this1 (data_html d) of
           (Resolved res, this2) \<Rightarrow>
             (Some (d\<lparr>data_html :=
                       (case res of
                          None \<Rightarrow> data_html d
                        | Some h \<Rightarrow> if h = [] then data_html d else h)\<rparr>), this2)
         | (Rejected err, this2) \<Rightarrow> (Some d, this2\<lparr>console := console this2 @ [Err err]\<rparr>)
         | (Pending, this2) \<Rightarrow> (None, this2))"

text \<open>
  The hook \<^verbatim>\<open>html-webpack-plugin-after-emit\<close>, given \<^verbatim>\<open>compilation.outputOptions.path\<close>
  when there is one. It queues the document for the \<^verbatim>\<open>after-emit\<close> step.
\<close>

definition afterEmitHtml ::
  "state \<Rightarrow> string option \<Rightarrow> htmlPluginData \<Rightarrow> htmlPluginData \<times> state" where
  "afterEmitHtml this compilationPath d =
     (let this1 = this\<lparr>outputPath := (case compilationPath of None \<Rightarrow> [] | Some p \<Rightarrow> p)\<rparr>
      in if outputPath this1 = []
         then (d, this1\<lparr>console := console this1 @
                 [Msg ''no output path found on compilation.outputOptions'']\<rparr>)
         else
           (let this2 = getUserConfig this1 d;
                filename = (case data_outputName d of None \<Rightarrow> [] | Some f \<Rightarrow> f)
            in if filename = []
               then (d, this2\<lparr>console := console this2 @
                       [Msg ''no filename found on htmlPluginData.outputName'']\<rparr>)
               else (d, this2\<lparr>files := files this2 @ [(filename, data_html d)]\<rparr>)))"

text \<open>
  \<^verbatim>\<open>updateOutputFile\<close>, called by the \<^verbatim>\<open>after-emit\<close> step with the result of
  \<^verbatim>\<open>processImages\<close> for a queued document. That step starts \<^verbatim>\<open>processImages\<close> for
  all queued documents at once and writes only when all of them have resolved; its
  interleaving is not modelled, the two functions it calls per document are.
\<close>

definition updateOutputFile ::
  "env \<Rightarrow> state \<Rightarrow> string option \<Rightarrow> string \<Rightarrow> unit promise \<times> state" where
  "updateOutputFile E this res filename =
     (if outputPath this = [] \<or> filename = []
      then (Rejected (Error ''outputPath & filename must be set to update output file''), this)
      else (case res of
              None \<Rightarrow> (Resolved (), this)
            | Some h \<Rightarrow>
                if h = [] then (Resolved (), this)
                else
                  (let file = pathResolve E [outputPath this, filename];
                       this1 = this\<lparr>effects := effects this @ [WriteFile file h]\<rparr>
                   in if writeFileFails E file then (Rejected FsError, this1)
                      else (Resolved (), this1))))"

section \<open>Notions used by the statements\<close>

text \<open>
  The descendants of a node in depth-first pre-order, children in document order. This
  is the order of the specification, written independently of \<open>getInlineImages\<close>.
\<close>

fun descendants :: "node \<Rightarrow> node list" where
  "descendants (Node nm ats cs loc) = concat (map (\<lambda>c. c # descendants c) cs)"

definition eligible :: "env \<Rightarrow> state \<Rightarrow> node \<Rightarrow> bool" where
  "eligible E this n = (isNodeValidInlineImage E this n = Inr True)"

text \<open>
  The node that \<open>processImage\<close> hands to \<open>processOutputHtml\<close> for a buffer, if any, and
  the nodes so handed over along the chain built by \<open>updateHTML\<close>: the transformer calls
  of one run, in order.
\<close>

definition chosen :: "env \<Rightarrow> state \<Rightarrow> string option \<Rightarrow> node option" where
  "chosen E this buf =
     (case parseFragment E buf of
        Inl err \<Rightarrow> None
      | Inr documentFragment \<Rightarrow>
          (case getFirstInlineImage E this documentFragment of
             Inl err \<Rightarrow> None
           | Inr res \<Rightarrow> res))"

fun attempts :: "env \<Rightarrow> string option promise \<times> state \<Rightarrow> node list \<Rightarrow> node list" where
  "attempts E acc [] = []"
| "attempts E acc (imageNode # rest) =
     (case acc of
        (Resolved buf, this) \<Rightarrow> (case chosen E this buf of None \<Rightarrow> [] | Some n \<Rightarrow> [n])
      | _ \<Rightarrow> [])
     @ attempts E (updateStep E acc) rest"

text \<open>
  The merge as the specification words it: start from the default sequence, replace the
  value of each key that the override also has (the key keeps its place), and append the
  override's other keys at the end.
\<close>

definition mergedSequence :: "jsobject \<Rightarrow> jsobject \<Rightarrow> jsobject" where
  "mergedSequence defaults override =
     map (\<lambda>p. (fst p, case map_of override (fst p) of None \<Rightarrow> snd p | Some v \<Rightarrow> v)) defaults
     @ filter (\<lambda>p. fst p \<notin> fst ` set defaults) override"

definition firstOf :: "'a list \<Rightarrow> 'a option" where
  "firstOf xs = (case xs of [] \<Rightarrow> None | x # _ \<Rightarrow> Some x)"

section \<open>A concrete project\<close>

text \<open>
  A small project on which the functions are run: a source directory with two SVG files
  (the optimizer accepts the content of \<open>a.svg\<close> only), a large and a small PNG file and
  a PNG file whose name contains \<open>.svg\<close>; a parser that knows the trees of the buffers
  that occur and throws on an undefined buffer; \<^verbatim>\<open>path.resolve\<close> joining its arguments
  below the project directory. In \<open>docTable\<close> the parser supplies the \<open>tbody\<close> element
  itself, which therefore has no location.
\<close>

definition trimSlash :: "string \<Rightarrow> string" where
  "trimSlash p = (if p \<noteq> [] \<and> last p = CHR ''/'' then butlast p else p)"

definition demoResolve :: "string list \<Rightarrow> string" where
  "demoResolve parts = ''/proj'' @ concat (map (\<lambda>p. ''/'' @ trimSlash p) parts)"

definition demoJoin :: "string \<Rightarrow> string \<Rightarrow> string" where
  "demoJoin a b = (if a = ''/'' then ''/'' @ b else a @ ''/'' @ b)"

definition demoFiles :: "string list" where
  "demoFiles = [''/proj/src/a.svg'', ''/proj/src/bad.svg'', ''/proj/src/b.png'',
                ''/proj/src/c.png'', ''/proj/src/x.svg.png'']"

definition demoDirs :: "string list" where
  "demoDirs = [''/'', ''/proj'', ''/proj/src'']"

definition demoRead :: "string \<Rightarrow> string option" where
  "demoRead file =
     (if file = ''/proj/src/bad.svg'' then Some ''bad''
      else if file = ''/proj/src/a.svg'' then Some ''<svg><title>a</title></svg>''
      else if file \<in> set demoFiles then Some ''PNG''
      else None)"

definition demoSize :: "string \<Rightarrow> nat option" where
  "demoSize file =
     (if file = ''/proj/src/b.png'' then Some 10000
      else if file \<in> set demoFiles then Some 3
      else None)"

definition demoOptimize :: "jsobject list \<Rightarrow> string option \<Rightarrow> string + string" where
  "demoOptimize plugins data =
     (if data = Some ''<svg><title>a</title></svg>'' then Inr ''<svg/>''
      else Inl ''Error in parsing SVG'')"

definition imgNode :: "string \<Rightarrow> nat \<Rightarrow> nat \<Rightarrow> node" where
  "imgNode src start end = Node ''img'' [(''src'', src)] [] (Some (start, end))"

definition fragmentOf :: "node list \<Rightarrow> node" where
  "fragmentOf cs = Node ''#document-fragment'' [] cs None"

definition docTwoSvg :: string where
  "docTwoSvg = ''<img src=\"bad.svg\"><img src=\"a.svg\">''"

definition docLarge :: string where
  "docLarge = ''<img src=\"b.png\">''"

definition docMixed :: string where
  "docMixed = ''<img src=\"a.svg\"><img src=\"c.png\">''"

definition docMixed1 :: string where
  "docMixed1 = ''<svg/><img src=\"c.png\">''"

definition docPlain :: string where
  "docPlain = ''<p>hi</p>''"

definition docTable :: string where
  "docTable = ''<img src=\"a.svg\"><table><tr></tr></table>''"

definition demoParse :: "string option \<Rightarrow> js_error + node" where
  "demoParse buf =
     (if buf = None then Inl TypeError
      else if buf = Some docTwoSvg
        then Inr (fragmentOf [imgNode ''bad.svg'' 0 19, imgNode ''a.svg'' 19 36])
      else if buf = Some docLarge
        then Inr (fragmentOf [imgNode ''b.png'' 0 17])
      else if buf = Some docMixed
        then Inr (fragmentOf [imgNode ''a.svg'' 0 17, imgNode ''c.png'' 17 34])
      else if buf = Some docMixed1
        then Inr (fragmentOf [Node ''svg'' [] [] (Some (0, 6)), imgNode ''c.png'' 6 23])
      else if buf = Some docPlain
        then Inr (fragmentOf [Node ''p'' [] [Node ''#text'' [] [] (Some (3, 5))] (Some (0, 9))])
      else if buf = Some docTable
        then Inr (fragmentOf
               [imgNode ''a.svg'' 0 17,
                Node ''table'' []
                  [Node ''tbody'' [] [Node ''tr'' [] [] (Some (24, 33))] None]
                  (Some (17, 41))])
      else Inr (fragmentOf []))"

definition demoEnv :: env where
  "demoEnv =
     \<lparr> parseFragment = demoParse,
       pathResolve = demoResolve,
       pathJoin = demoJoin,
       existsSync = (\<lambda>file. file \<in> set (demoFiles @ demoDirs)),
       statSize = demoSize,
       readFile = demoRead,
       readFileSync = demoRead,
       mkdirSyncFails = (\<lambda>file. False),
       writeFileFails = (\<lambda>file. False),
       base64 = (\<lambda>bytes. if bytes = ''PNG'' then ''UE5H'' else []),
       mimeLookup = (\<lambda>file. if suffix ''.png'' file then Some ''image/png'' else None),
       optimize = demoOptimize \<rparr>"

definition demoDefaults :: jsobject where
  "demoDefaults = [(''removeTitle'', JBool True), (''cleanupIDs'', JBool False)]"

definition demoThis :: state where
  "demoThis =
     constructor \<lparr> opt_runPreEmit = True, opt_basePath = Some ''static/'',
                   opt_imageLimit = None \<rparr> demoDefaults"

definition demoData :: "string \<Rightarrow> jsobject option \<Rightarrow> htmlPluginData" where
  "demoData buf cfg =
     \<lparr> data_html = buf, data_outputName = Some ''index.html'', data_svgoConfig = cfg \<rparr>"

definition demoOverride :: state where
  "demoOverride =
     demoThis\<lparr>userConfig := [(''removeTitle'', JBool False), (''sortAttrs'', JBool True)]\<rparr>"


definition demoUnreadable :: env where
  "demoUnreadable = demoEnv\<lparr>readFile := (\<lambda>file. None), readFileSync := (\<lambda>file. None)\<rparr>"

section \<open>Properties of the classifier\<close>

lemma indexOfFrom_sublist: "indexOfFrom pat s i \<noteq> - 1 \<longleftrightarrow> sublist pat s"
  by (induction s arbitrary: i) (auto simp: sublist_Cons_right)

lemma contains_iff: "truthy (NOT (indexOf s pat)) \<longleftrightarrow> sublist pat s"
proof -
  have "truthy (NOT (indexOf s pat)) \<longleftrightarrow> indexOf s pat \<noteq> - 1"
    by (simp add: truthy_def not_int_def)
  then show ?thesis
    by (simp add: indexOf_def indexOfFrom_sublist)
qed

lemma find_key_name: "find (\<lambda>a. fst a = k) xs = Some (a, v) \<Longrightarrow> a = k"
  by (induction xs) (auto split: if_splits)

lemma getImagesSrc_cases:
  "getImagesSrc n =
     (case find (\<lambda>a. fst a = ''src'') (attrs n) of
        None \<Rightarrow> []
      | Some a \<Rightarrow>
          if sublist ''.svg'' (snd a) \<or> sublist ''.jpg'' (snd a) \<or> sublist ''.png'' (snd a)
          then snd a else [])"
  by (auto simp: getImagesSrc_def contains_iff Let_def split: option.splits)

lemma isNodeValid_True_iff:
  "isNodeValidInlineImage E this n = Inr True \<longleftrightarrow>
     nodeName n = ''img'' \<and>
     (\<exists>v. find (\<lambda>a. fst a = ''src'') (attrs n) = Some (''src'', v) \<and> v \<noteq> [] \<and>
          (sublist ''.svg'' v \<or> sublist ''.png'' v \<or> sublist ''.jpg'' v) \<and>
          existsSync E (pathResolve E [''src'', v])) \<and>
     (\<exists>s e. location n = Some (s, e) \<and> s \<notin> set (processedImages this))"
proof (cases "find (\<lambda>a. fst a = ''src'') (attrs n)")
  case None
  then show ?thesis
    by (auto simp: isNodeValidInlineImage_def getImagesSrc_cases contains_iff
      split: option.splits)
next
  case (Some a)
  obtain k v where a: "a = (k, v)" by (cases a)
  with Some have k: "k = ''src''" by (auto dest: find_key_name)
  show ?thesis using Some a k
    by (auto simp: isNodeValidInlineImage_def getImagesSrc_cases contains_iff
      split: option.splits)
qed

text \<open>
  Claim C7. A node is classified eligible exactly when its tag name is \<open>img\<close>, its
  first \<open>src\<close> attribute has a non-empty value that contains \<open>.svg\<close>, \<open>.png\<close> or \<open>.jpg\<close>
  somewhere (as a substring, not as a suffix), that value resolved against the \<open>src\<close>
  directory exists on disk, and the start offset of its span is not in
  \<open>processedImages\<close>.
\<close>

theorem isNodeValidInlineImage_iff:
  "isNodeValidInlineImage E this n = Inr True \<longleftrightarrow>
     nodeName n = ''img'' \<and>
     (\<exists>v. find (\<lambda>a. fst a = ''src'') (attrs n) = Some (''src'', v) \<and> v \<noteq> [] \<and>
          (sublist ''.svg'' v \<or> sublist ''.png'' v \<or> sublist ''.jpg'' v) \<and>
          existsSync E (pathResolve E [''src'', v])) \<and>
     (\<exists>s e. location n = Some (s, e) \<and> s \<notin> set (processedImages this))"
  by (rule isNodeValid_True_iff)

section \<open>The configuration merge\<close>

lemma setProperty_new:
  "key \<notin> fst ` set obj \<Longrightarrow> setProperty obj key val = obj @ [(key, val)]"
  by (induction obj) auto

lemma setProperty_old:
  "key \<in> fst ` set obj \<Longrightarrow> distinct (map fst obj) \<Longrightarrow>
     setProperty obj key val = map (\<lambda>p. if fst p = key then (key, val) else p) obj"
proof (induction obj)
  case Nil
  then show ?case by simp
next
  case (Cons p ps)
  show ?case
  proof (cases "fst p = key")
    case True
    with Cons.prems have "key \<notin> fst ` set ps" by auto
    then have "map (\<lambda>p. if fst p = key then (key, val) else p) ps = ps"
      by (induction ps) auto
    with True show ?thesis by simp
  next
    case False
    with Cons show ?thesis by auto
  qed
qed

lemma setProperty_keys:
  "fst ` set (setProperty obj key val) = insert key (fst ` set obj)"
  by (induction obj) auto

lemma setProperty_distinct:
  "distinct (map fst obj) \<Longrightarrow> distinct (map fst (setProperty obj key val))"
  by (induction obj) (auto simp: setProperty_keys)

lemma assign_in_order:
  "distinct (map fst d) \<Longrightarrow> distinct (map fst u) \<Longrightarrow>
     foldl (\<lambda>t p. setProperty t (fst p) (snd p)) d u = mergedSequence d u"
proof (induction u arbitrary: d)
  case Nil
  then show ?case by (simp add: mergedSequence_def)
next
  case (Cons p u)
  obtain k v where p: "p = (k, v)" by (cases p)
  from Cons.prems p have ku: "k \<notin> fst ` set u" and du: "distinct (map fst u)" by auto
  then have mk: "map_of u k = None" by (simp add: map_of_eq_None_iff)
  have IH: "foldl (\<lambda>t p. setProperty t (fst p) (snd p)) (setProperty d k v) u =
      mergedSequence (setProperty d k v) u"
    using Cons.IH [OF setProperty_distinct [OF Cons.prems(1)] du] .
  show ?case
  proof (cases "k \<in> fst ` set d")
    case True
    have keys: "fst ` set (setProperty d k v) = fst ` set d"
      using True by (simp add: setProperty_keys insert_absorb)
    have vals: "map (\<lambda>q. (fst q, case map_of u (fst q) of None \<Rightarrow> snd q | Some w \<Rightarrow> w))
                  (setProperty d k v) =
                map (\<lambda>q. (fst q, case map_of (p # u) (fst q) of None \<Rightarrow> snd q | Some w \<Rightarrow> w)) d"
      using mk by (simp add: setProperty_old [OF True Cons.prems(1)] p)
    have "mergedSequence (setProperty d k v) u = mergedSequence d (p # u)"
      unfolding mergedSequence_def keys vals using True by (simp add: p)
    with IH show ?thesis by (simp add: p)
  next
    case False
    have "filter (\<lambda>q. fst q \<noteq> k \<and> fst q \<notin> fst ` set d) u = filter (\<lambda>q. fst q \<notin> fst ` set d) u"
      using ku by (intro filter_cong) auto
    then have "mergedSequence (setProperty d k v) u = mergedSequence d (p # u)"
      using False mk
      by (auto simp: mergedSequence_def setProperty_new p)
    with IH show ?thesis by (simp add: p)
  qed
qed

lemma ownEntries_plain: "\<forall>p \<in> set obj. \<not> isArrayIndex (fst p) \<Longrightarrow> ownEntries obj = obj"
  by (simp add: ownEntries_def filter_False filter_True)

lemma mergedSequence_entries: "set (mergedSequence d u) \<subseteq> set d \<union> set u"
  by (auto simp: mergedSequence_def split: option.splits dest: map_of_SomeD)

text \<open>
  Claim C8, as amended. For a default configuration and an override, both objects (no
  key twice), none of whose keys is an array index and none of whose \<open>length\<close>
  properties is a valid array length, the plugin sequence handed to the optimizer is
  the default sequence with the value of each key replaced that the override also has,
  the key keeping its position, followed by the override's keys that the default
  lacks. The example of the specification, \<open>{a:1, b:2}\<close> merged with \<open>{b:3, c:4}\<close>, is
  the instance stated after the theorem.
\<close>

theorem pluginsOf_objectAssign_merged:
  assumes "distinct (map fst d)" and "distinct (map fst u)"
      and "\<forall>p \<in> set d \<union> set u. \<not> isArrayIndex (fst p)"
      and "\<forall>p \<in> set d \<union> set u. fst p = ''length'' \<longrightarrow> \<not> isLength (snd p)"
  shows "pluginsOf (objectAssign d u) = map (\<lambda>p. [p]) (mergedSequence d u)"
proof -
  from assms(3) have "ownEntries u = u" by (simp add: ownEntries_plain)
  then have m: "objectAssign d u = mergedSequence d u"
    using assms(1,2) by (simp add: objectAssign_def assign_in_order)
  from assms(3) mergedSequence_entries [of d u]
  have "\<forall>p \<in> set (mergedSequence d u). \<not> isArrayIndex (fst p)" by blast
  then have o: "ownEntries (mergedSequence d u) = mergedSequence d u"
    by (rule ownEntries_plain)
  have "\<not> isArrayLike (mergedSequence d u)"
  proof (cases "map_of (mergedSequence d u) ''length''")
    case None
    then show ?thesis by (simp add: isArrayLike_def)
  next
    case (Some v)
    then have "(''length'', v) \<in> set (mergedSequence d u)" by (rule map_of_SomeD)
    with mergedSequence_entries [of d u] have "(''length'', v) \<in> set d \<union> set u" by blast
    with assms(4) have "fst (''length'', v) = ''length'' \<longrightarrow> \<not> isLength (snd (''length'', v))"
      by (rule bspec)
    then have "\<not> isLength v" by simp
    with Some show ?thesis by (simp add: isArrayLike_def)
  qed
  with m o show ?thesis by (simp add: pluginsOf_def)
qed

theorem pluginsOf_objectAssign_example:
  "distinct (map fst [(''a'', JNum 1), (''b'', JNum 2)]) \<and>
   distinct (map fst [(''b'', JNum 3), (''c'', JNum 4)]) \<and>
   pluginsOf (objectAssign [(''a'', JNum 1), (''b'', JNum 2)] [(''b'', JNum 3), (''c'', JNum 4)])
     = [[(''a'', JNum 1)], [(''b'', JNum 3)], [(''c'', JNum 4)]]"
proof -
  have h1: "distinct (map fst [(''a'', JNum 1), (''b'', JNum 2)])" by simp
  have h2: "distinct (map fst [(''b'', JNum 3), (''c'', JNum 4)])" by simp
  have h3: "\<forall>p \<in> set [(''a'', JNum 1), (''b'', JNum 2)] \<union> set [(''b'', JNum 3), (''c'', JNum 4)].
      \<not> isArrayIndex (fst p)"
    by code_simp
  have h4: "\<forall>p \<in> set [(''a'', JNum 1), (''b'', JNum 2)] \<union> set [(''b'', JNum 3), (''c'', JNum 4)].
      fst p = ''length'' \<longrightarrow> \<not> isLength (snd p)"
    by simp
  have m: "map (\<lambda>p. [p])
      (mergedSequence [(''a'', JNum 1), (''b'', JNum 2)] [(''b'', JNum 3), (''c'', JNum 4)]) =
      [[(''a'', JNum 1)], [(''b'', JNum 3)], [(''c'', JNum 4)]]"
    by (simp add: mergedSequence_def)
  from pluginsOf_objectAssign_merged [OF h1 h2 h3 h4] m h1 h2 show ?thesis by simp
qed

text \<open>
  Claim C8 as stated fails for keys that JavaScript does not enumerate in creation
  order. The override \<open>{'2': true, '10': true}\<close> puts its keys before the default's
  plugins, where the claim appends them; and with \<open>length: 1\<close> in the override Lodash
  takes the merged object for an array and visits index \<open>0\<close> only.
\<close>

theorem index_keys_enumerate_first:
  "pluginsOf (objectAssign demoDefaults [(''2'', JBool True), (''10'', JBool True)]) =
     [[(''2'', JBool True)], [(''10'', JBool True)],
      [(''removeTitle'', JBool True)], [(''cleanupIDs'', JBool False)]] \<and>
   map (\<lambda>p. [p]) (mergedSequence demoDefaults [(''2'', JBool True), (''10'', JBool True)]) =
     [[(''removeTitle'', JBool True)], [(''cleanupIDs'', JBool False)],
      [(''2'', JBool True)], [(''10'', JBool True)]] \<and>
   pluginsOf (objectAssign demoDefaults [(''length'', JNum 1)]) = [[(''0'', JUndefined)]]"
  by code_simp

lemma assign_keeps:
  "(k, v) \<in> set t \<Longrightarrow> k \<notin> fst ` set l \<Longrightarrow>
     (k, v) \<in> set (foldl (\<lambda>t p. setProperty t (fst p) (snd p)) t l)"
proof (induction l arbitrary: t)
  case Nil
  then show ?case by simp
next
  case (Cons p l)
  have "(k, v) \<in> set (setProperty t (fst p) (snd p))"
    using Cons.prems by (induction t) auto
  with Cons show ?case by simp
qed

lemma setProperty_has: "(k, v) \<in> set (setProperty t k v)"
  by (induction t) auto

lemma assign_has:
  "distinct (map fst l) \<Longrightarrow> (k, v) \<in> set l \<Longrightarrow>
     (k, v) \<in> set (foldl (\<lambda>t p. setProperty t (fst p) (snd p)) t l)"
proof (induction l arbitrary: t)
  case Nil
  then show ?case by simp
next
  case (Cons p l)
  show ?case
  proof (cases "p = (k, v)")
    case True
    with Cons.prems have "k \<notin> fst ` set l" by auto
    with True show ?thesis
      by (simp add: assign_keeps setProperty_has)
  next
    case False
    with Cons show ?thesis by auto
  qed
qed

lemma ownEntries_set: "set (ownEntries obj) = set obj"
  by (auto simp: ownEntries_def)

lemma ownEntries_distinct:
  assumes "distinct (map fst obj)"
  shows "distinct (map fst (ownEntries obj))"
proof -
  from assms have d: "distinct obj" and i: "inj_on fst (set obj)"
    by (simp_all add: distinct_map)
  have "inj_on fst (set (ownEntries obj))"
    using i by (simp add: ownEntries_set)
  moreover have "distinct (ownEntries obj)"
    using d by (auto simp: ownEntries_def)
  ultimately show ?thesis by (simp add: distinct_map)
qed

lemma objectAssign_has:
  "distinct (map fst u) \<Longrightarrow> (k, v) \<in> set u \<Longrightarrow> (k, v) \<in> set (objectAssign t u)"
  unfolding objectAssign_def
  by (rule assign_has) (simp_all add: ownEntries_distinct ownEntries_set)

lemma svgBranch_default:
  "svgoDefaultConfig (snd (svgBranch E this buf n src)) =
     objectAssign (svgoDefaultConfig this) (userConfig this)"
  by (auto simp: svgBranch_def pushProcessed_def Let_def split: sum.splits option.splits)

lemma processOutputHtml_svg:
  "sublist ''.svg'' (getImagesSrc n) \<Longrightarrow>
     processOutputHtml E this buf n = svgBranch E this buf n (getImagesSrc n)"
  by (auto simp: processOutputHtml_def contains_iff Let_def)

text \<open>
  Claim C9. The merge is not pure. Processing an SVG asset stores the merged
  configuration in the shared \<open>svgoDefaultConfig\<close>: afterwards it is the old default
  overwritten by the user configuration, so it holds every key and value of the
  override; it differs from the old default as soon as the override has an entry the
  default did not have; and the merge of any later SVG asset, of this or of another
  document, starts from that changed default.
\<close>

theorem processOutputHtml_mutates_default:
  assumes "sublist ''.svg'' (getImagesSrc n)" and "distinct (map fst (userConfig this))"
  shows "svgoDefaultConfig (snd (processOutputHtml E this buf n)) =
           objectAssign (svgoDefaultConfig this) (userConfig this) \<and>
         set (userConfig this) \<subseteq> set (svgoDefaultConfig (snd (processOutputHtml E this buf n))) \<and>
         (\<not> set (userConfig this) \<subseteq> set (svgoDefaultConfig this) \<longrightarrow>
            svgoDefaultConfig (snd (processOutputHtml E this buf n)) \<noteq> svgoDefaultConfig this) \<and>
         (\<forall>E2 this2 buf2 n2.
            sublist ''.svg'' (getImagesSrc n2) \<and>
            svgoDefaultConfig this2 = svgoDefaultConfig (snd (processOutputHtml E this buf n)) \<longrightarrow>
            svgoDefaultConfig (snd (processOutputHtml E2 this2 buf2 n2)) =
              objectAssign (objectAssign (svgoDefaultConfig this) (userConfig this))
                (userConfig this2))"
proof -
  have eq: "svgoDefaultConfig (snd (processOutputHtml E this buf n)) =
           objectAssign (svgoDefaultConfig this) (userConfig this)"
    using assms(1) by (simp add: processOutputHtml_svg svgBranch_default)
  have sub: "set (userConfig this) \<subseteq> set (objectAssign (svgoDefaultConfig this) (userConfig this))"
    using assms(2) by (auto intro: objectAssign_has)
  have later: "\<And>E2 this2 buf2 n2. sublist ''.svg'' (getImagesSrc n2) \<Longrightarrow>
     svgoDefaultConfig (snd (processOutputHtml E2 this2 buf2 n2)) =
       objectAssign (svgoDefaultConfig this2) (userConfig this2)"
    by (simp add: processOutputHtml_svg svgBranch_default)
  show ?thesis
    using eq sub later by auto
qed

theorem processOutputHtml_mutates_default_example:
  "sublist ''.svg'' (getImagesSrc (imgNode ''a.svg'' 0 17)) \<and>
   distinct (map fst (userConfig demoOverride)) \<and>
   svgoDefaultConfig demoOverride =
     [(''removeTitle'', JBool True), (''cleanupIDs'', JBool False)] \<and>
   svgoDefaultConfig
     (snd (processOutputHtml demoEnv demoOverride (Some docMixed) (imgNode ''a.svg'' 0 17)))
     = [(''removeTitle'', JBool False), (''cleanupIDs'', JBool False), (''sortAttrs'', JBool True)]"
proof -
  have h1: "sublist ''.svg'' (getImagesSrc (imgNode ''a.svg'' 0 17))" by code_simp
  have h2: "distinct (map fst (userConfig demoOverride))" by code_simp
  have d: "svgoDefaultConfig demoOverride =
      [(''removeTitle'', JBool True), (''cleanupIDs'', JBool False)]"
    by code_simp
  have o: "objectAssign (svgoDefaultConfig demoOverride) (userConfig demoOverride) =
      [(''removeTitle'', JBool False), (''cleanupIDs'', JBool False), (''sortAttrs'', JBool True)]"
    by code_simp
  from processOutputHtml_mutates_default [OF h1 h2, of demoEnv "Some docMixed"]
  have "svgoDefaultConfig
          (snd (processOutputHtml demoEnv demoOverride (Some docMixed) (imgNode ''a.svg'' 0 17)))
     = objectAssign (svgoDefaultConfig demoOverride) (userConfig demoOverride)"
    by blast
  with h1 h2 d o show ?thesis by simp
qed

section \<open>Configuration errors\<close>

text \<open>
  Claim C10. When the compilation has no output path, or the document no output name,
  the hook logs the error and hands the plugin data back as it received it; the document
  is not queued, so nothing is written for it, and \<open>updateOutputFile\<close> itself refuses
  to write without an output path or a file name.
\<close>

theorem configuration_errors_abort:
  assumes "compilationPath = None \<or> compilationPath = Some [] \<or>
           data_outputName d = None \<or> data_outputName d = Some []"
  shows "fst (afterEmitHtml this compilationPath d) = d \<and>
         files (snd (afterEmitHtml this compilationPath d)) = files this \<and>
         effects (snd (afterEmitHtml this compilationPath d)) = effects this \<and>
         (\<exists>m \<in> {''no output path found on compilation.outputOptions'',
                  ''no filename found on htmlPluginData.outputName''}.
            console (snd (afterEmitHtml this compilationPath d)) = console this @ [Msg m]) \<and>
         (\<forall>E that res filename. outputPath that = [] \<or> filename = [] \<longrightarrow>
            (\<exists>err. updateOutputFile E that res filename = (Rejected err, that)))"
  using assms
  by (auto simp: afterEmitHtml_def getUserConfig_def updateOutputFile_def Let_def
      split: option.splits)

theorem configuration_errors_abort_example:
  "afterEmitHtml demoThis None (demoData docPlain None) =
     (demoData docPlain None,
      demoThis\<lparr>console := [Msg ''no output path found on compilation.outputOptions'']\<rparr>) \<and>
   fst (afterEmitHtml demoThis (Some ''dist'')
          \<lparr>data_html = docPlain, data_outputName = None, data_svgoConfig = None\<rparr>) =
     \<lparr>data_html = docPlain, data_outputName = None, data_svgoConfig = None\<rparr> \<and>
   files (snd (afterEmitHtml demoThis (Some ''dist'')
          \<lparr>data_html = docPlain, data_outputName = None, data_svgoConfig = None\<rparr>)) = [] \<and>
   fst (updateOutputFile demoEnv demoThis (Some docPlain) ''index.html'') =
     Rejected (Error ''outputPath & filename must be set to update output file'')"
  using configuration_errors_abort [of None "demoData docPlain None" demoThis]
    configuration_errors_abort [of "Some ''dist''"
      "\<lparr>data_html = docPlain, data_outputName = None, data_svgoConfig = None\<rparr>" demoThis]
  by (simp add: afterEmitHtml_def updateOutputFile_def demoThis_def constructor_def
      getUserConfig_def demoData_def)

section \<open>The traversal and the splice\<close>

lemma find_app:
  "find P (xs @ ys) = (case find P xs of None \<Rightarrow> find P ys | Some x \<Rightarrow> Some x)"
  by (induction xs) auto

lemma getInlineImages_find:
  "getInlineImages E this n acc = Inr xs \<Longrightarrow>
     \<exists>ys. xs = acc @ ys \<and> firstOf ys = find (eligible E this) (descendants n)"
  "forEachChild E this cs acc = Inr xs \<Longrightarrow>
     \<exists>ys. xs = acc @ ys \<and>
          firstOf ys = find (eligible E this) (concat (map (\<lambda>c. c # descendants c) cs))"
proof (induction E this n acc and E this cs acc arbitrary: xs and xs
    rule: getInlineImages_forEachChild.induct)
  case (1 E this nm ats cs loc inlineImages)
  then show ?case by simp
next
  case (2 E this inlineImages)
  then show ?case by (simp add: firstOf_def)
next
  case (3 E this childNode rest inlineImages)
  show ?case
  proof (cases "isNodeValidInlineImage E this childNode")
    case (Inl err)
    with "3.prems" show ?thesis by simp
  next
    case (Inr b)
    show ?thesis
    proof (cases b)
      case True
      then have bT: "b = True" by simp
      with Inr "3.prems" have "forEachChild E this rest (inlineImages @ [childNode]) = Inr xs"
        by simp
      from "3.IH"(1) [OF Inr bT this] obtain ys where "xs = (inlineImages @ [childNode]) @ ys"
        by blast
      moreover have "eligible E this childNode"
        using Inr bT by (simp add: eligible_def)
      ultimately show ?thesis
        by (simp add: firstOf_def)
    next
      case False
      then have bF: "b = False" by simp
      with Inr "3.prems" obtain acc' where
        a: "getInlineImages E this childNode inlineImages = Inr acc'" and
        b: "forEachChild E this rest acc' = Inr xs"
        by (auto split: sum.splits)
      from "3.IH"(2) [OF Inr bF a] obtain ys1 where
        y1: "acc' = inlineImages @ ys1" "firstOf ys1 = find (eligible E this) (descendants childNode)"
        by blast
      from "3.IH"(3) [OF Inr bF a b] obtain ys2 where
        y2: "xs = acc' @ ys2"
          "firstOf ys2 = find (eligible E this) (concat (map (\<lambda>c. c # descendants c) rest))"
        by blast
      have fo: "firstOf (ys1 @ ys2) = (case firstOf ys1 of None \<Rightarrow> firstOf ys2 | Some x \<Rightarrow> Some x)"
        by (cases ys1) (simp_all add: firstOf_def)
      have ne: "\<not> eligible E this childNode"
        using Inr bF by (simp add: eligible_def)
      show ?thesis
        using y1 y2 fo ne
        by (intro exI [of _ "ys1 @ ys2"]) (simp add: find_app split: option.splits)
    qed
  qed
qed

lemma getInlineImages_first:
  "getInlineImages E this doc [] = Inr xs \<Longrightarrow> firstOf xs = find (eligible E this) (descendants doc)"
  by (auto dest: getInlineImages_find(1))





lemma eligible_cong:
  "processedImages a = processedImages b \<Longrightarrow> eligible E a = eligible E b"
  by (auto simp: eligible_def isNodeValidInlineImage_def fun_eq_iff Let_def
      split: option.splits)




lemma located_isNodeValid:
  "location n \<noteq> None \<Longrightarrow> \<exists>b. isNodeValidInlineImage E this n = Inr b"
  by (auto simp: isNodeValidInlineImage_def Let_def)

lemma located_traversal:
  "\<forall>m \<in> set (descendants n). location m \<noteq> None \<Longrightarrow>
     \<exists>xs. getInlineImages E this n acc = Inr xs"
  "\<forall>m \<in> set (concat (map (\<lambda>c. c # descendants c) cs)). location m \<noteq> None \<Longrightarrow>
     \<exists>xs. forEachChild E this cs acc = Inr xs"
proof (induction E this n acc and E this cs acc
    rule: getInlineImages_forEachChild.induct)
  case (1 E this nm ats cs loc inlineImages)
  then show ?case by simp
next
  case (2 E this inlineImages)
  then show ?case by simp
next
  case (3 E this childNode rest inlineImages)
  from "3.prems" have l: "location childNode \<noteq> None"
    and dc: "\<forall>m \<in> set (descendants childNode). location m \<noteq> None"
    and dr: "\<forall>m \<in> set (concat (map (\<lambda>c. c # descendants c) rest)). location m \<noteq> None"
    by auto
  from located_isNodeValid [OF l] obtain b where
    v: "isNodeValidInlineImage E this childNode = Inr b" by blast
  show ?case
  proof (cases b)
    case True
    then have bT: "b = True" by simp
    from "3.IH"(1) [OF v bT dr] v bT show ?thesis by simp
  next
    case False
    then have bF: "b = False" by simp
    from "3.IH"(2) [OF v bF dc] obtain acc' where
      a: "getInlineImages E this childNode inlineImages = Inr acc'" by blast
    from "3.IH"(3) [OF v bF a dr] v bF a show ?thesis by simp
  qed
qed




text \<open>
  Claim C3. When the tree of a document has no eligible image, \<open>processImages\<close>
  changes nothing: the hook that runs before emission hands the plugin data back
  with the same HTML, and on the path after emission the promise carries no HTML (or is
  rejected by an exception of the traversal), for which \<open>updateOutputFile\<close> writes no
  file.
\<close>

theorem no_eligible_image_unchanged:
  assumes "parseFragment E (Some (data_html d)) = Inr doc"
      and "\<forall>n \<in> set (descendants doc). \<not> eligible E this n"
  shows "fst (afterHtmlProcessing E this d) = Some d \<and>
         effects (snd (afterHtmlProcessing E this d)) = effects this \<and>
         (fst (processImages E this (data_html d)) = Resolved None \<or>
          (\<exists>err. fst (processImages E this (data_html d)) = Rejected err)) \<and>
         snd (processImages E this (data_html d)) = this \<and>
         (\<forall>that filename. effects (snd (updateOutputFile E that None filename)) = effects that)"
proof -
  have none: "find (eligible E t) (descendants doc) = None"
    if "processedImages t = processedImages this" for t :: state
  proof -
    have "eligible E t = eligible E this"
      using that by (rule eligible_cong)
    with assms(2) show ?thesis by (simp add: find_None_iff)
  qed
  have pi: "processImages E t (data_html d) = (Resolved None, t) \<or>
      (\<exists>err. processImages E t (data_html d) = (Rejected err, t))"
    if t: "processedImages t = processedImages this" for t :: state
  proof -
    show ?thesis
    proof (cases "getInlineImages E t doc []")
      case (Inl err)
      with assms(1) show ?thesis by (simp add: processImages_def)
    next
      case (Inr xs)
      from getInlineImages_first [OF Inr] none [OF t] have "xs = []"
        by (simp add: firstOf_def split: list.splits)
      with Inr assms(1) show ?thesis by (simp add: processImages_def)
    qed
  qed
  have u: "\<And>that filename. effects (snd (updateOutputFile E that None filename)) = effects that"
    by (simp add: updateOutputFile_def)
  have g: "processedImages (getUserConfig this d) = processedImages this"
      "effects (getUserConfig this d) = effects this"
    by (simp_all add: getUserConfig_def)
  from pi [OF g(1)] g(2) have a: "fst (afterHtmlProcessing E this d) = Some d \<and>
         effects (snd (afterHtmlProcessing E this d)) = effects this"
    by (auto simp: afterHtmlProcessing_def Let_def)
  from pi [of "this"] a u show ?thesis by auto
qed

theorem no_eligible_image_unchanged_example:
  "parseFragment demoEnv (Some docPlain) =
     Inr (fragmentOf [Node ''p'' [] [Node ''#text'' [] [] (Some (3, 5))] (Some (0, 9))]) \<and>
   fst (afterHtmlProcessing demoEnv demoThis (demoData docPlain None)) =
     Some (demoData docPlain None) \<and>
   processImages demoEnv demoThis docPlain = (Resolved None, demoThis)"
proof -
  have h1: "parseFragment demoEnv (Some (data_html (demoData docPlain None))) =
      Inr (fragmentOf [Node ''p'' [] [Node ''#text'' [] [] (Some (3, 5))] (Some (0, 9))])"
    by code_simp
  have h2: "\<forall>n \<in> set (descendants
      (fragmentOf [Node ''p'' [] [Node ''#text'' [] [] (Some (3, 5))] (Some (0, 9))])).
      \<not> eligible demoEnv demoThis n"
    by code_simp
  have e: "processImages demoEnv demoThis docPlain = (Resolved None, demoThis)"
    by code_simp
  from no_eligible_image_unchanged [OF h1 h2] h1 e show ?thesis
    by (simp add: demoData_def)
qed

section \<open>The raster strategy\<close>









section \<open>Recording the start offset\<close>

text \<open>
  The SVG strategy records the start offset in every case: the push runs in the
  executor, before the read and the optimizer have answered.
\<close>

lemma svgBranch_pushed:
  "location n = Some (s, e) \<Longrightarrow>
     processedImages (snd (svgBranch E this buf n src)) = processedImages this @ [s]"
  by (auto simp: svgBranch_def pushProcessed_def Let_def split: sum.splits)

text \<open>
  Claim C1 on the project. The push of \<open>processOutputHtml\<close> stands after both
  strategies, but an exception of the raster strategy leaves the executor before it:
  for the large image, relocated without a \<open>basePath\<close> in the user configuration,
  \<open>path.resolve\<close> throws, the promise is rejected and the start offset \<open>0\<close> is not
  recorded. The same holds for a small image whose file cannot be read, while the SVG
  strategy does record the offset of an image whose file cannot be read.
\<close>

theorem failed_raster_not_recorded:
  "eligible demoEnv demoThis (imgNode ''b.png'' 0 17) \<and>
   processOutputHtml demoEnv demoThis (Some docLarge) (imgNode ''b.png'' 0 17) =
     (Rejected TypeError, demoThis) \<and>
   0 \<notin> set (processedImages
     (snd (processOutputHtml demoEnv demoThis (Some docLarge) (imgNode ''b.png'' 0 17)))) \<and>
   eligible demoUnreadable demoThis (imgNode ''c.png'' 6 23) \<and>
   processOutputHtml demoUnreadable demoThis (Some docMixed1) (imgNode ''c.png'' 6 23) =
     (Rejected FsError, demoThis) \<and>
   eligible demoUnreadable demoThis (imgNode ''a.svg'' 0 17) \<and>
   fst (processOutputHtml demoUnreadable demoThis (Some docMixed) (imgNode ''a.svg'' 0 17)) =
     Rejected FsError \<and>
   processedImages
     (snd (processOutputHtml demoUnreadable demoThis (Some docMixed) (imgNode ''a.svg'' 0 17)))
     = [0]"
  by code_simp

section \<open>Optimizer failures and the relocation path\<close>

lemma updateStep_cases:
  "updateStep E (Resolved buf, this) =
     (case processImage E this buf of
        (Rejected err, this') \<Rightarrow> (Resolved None, this'\<lparr>console := console this' @ [Err err]\<rparr>)
      | (Resolved buf', this') \<Rightarrow> (Resolved buf', this')
      | (Pending, this') \<Rightarrow> (Pending, this'))"
  "updateStep E (Rejected err, this) = (Resolved None, this\<lparr>console := console this @ [Err err]\<rparr>)"
  "updateStep E (Pending, this) = (Pending, this)"
  by (simp_all add: updateStep_def)

lemma svgBranch_optimizer_failure:
  assumes "location n = Some (s, e)"
      and "readFile E (pathResolve E [''src'', src]) = Some d"
      and "optimize E (pluginsOf (objectAssign (svgoDefaultConfig this) (userConfig this)))
             (Some d) = Inl message"
  shows "svgBranch E this buf n src =
     (Pending,
      this\<lparr>processedImages := processedImages this @ [s],
           svgoDefaultConfig := objectAssign (svgoDefaultConfig this) (userConfig this),
           console := console this @ [Msg message]\<rparr>)"
  using assms by (simp add: svgBranch_def pushProcessed_def settle_def Let_def)

lemma updateHTML_Pending:
  "foldl (\<lambda>acc imageNode. updateStep E acc) (Pending, this) ns = (Pending, this)"
  by (induction ns) (simp_all add: updateStep_cases)

text \<open>
  Claim C5 on the project: the optimizer fails for \<open>bad.svg\<close>, the first of two SVG
  images. The failure is logged, but the promise of \<open>processOutputHtml\<close> is never
  settled: \<open>processImages\<close> stays pending, the hook never calls the host back, and the
  second image, at offset \<open>19\<close>, is never attempted.
\<close>

theorem optimizer_failure_never_settles:
  "fst (processImages demoEnv demoThis docTwoSvg) = Pending \<and>
   afterHtmlProcessing demoEnv demoThis (demoData docTwoSvg None) =
     (None, demoThis\<lparr>processedImages := [0], console := [Msg ''Error in parsing SVG'']\<rparr>) \<and>
   attempts demoEnv (Resolved (Some docTwoSvg), demoThis)
     [imgNode ''bad.svg'' 0 19, imgNode ''a.svg'' 19 36] = [imgNode ''bad.svg'' 0 19]"
  by code_simp

text \<open>
  Claim C6 on the project: the plugin is constructed with \<open>basePath = static/\<close>. The
  relocation reads \<open>this.userConfig.basePath\<close> instead. Without that key the large
  image is not replaced at all (\<open>path.resolve\<close> throws, the document comes back
  unchanged); with \<open>basePath = other/\<close> in the user configuration the new source is
  \<open>./other/b.png\<close>, not \<open>./static/b.png\<close>.
\<close>

theorem relocation_ignores_constructor_basePath:
  "basePath demoThis = Some ''static/'' \<and>
   afterHtmlProcessing demoEnv demoThis (demoData docLarge None) =
     (Some (demoData docLarge None), demoThis\<lparr>console := [Err TypeError]\<rparr>) \<and>
   fst (afterHtmlProcessing demoEnv demoThis
          (demoData docLarge (Some [(''basePath'', JStr ''other/'')]))) =
     Some (demoData ''<img src=\"./other/b.png\" />'' (Some [(''basePath'', JStr ''other/'')]))"
  by code_simp

end
